theory Spec2Isabelle
  imports Complex_Main
begin

section \<open>Time, durations and errors\<close>

text \<open>
  A \<open>time.Time\<close> is modelled by the number of nanoseconds since the Unix epoch, a
  \<open>time.Duration\<close> by its \<open>int64\<close> count of nanoseconds. \<open>time.Since t\<close> is
  \<open>time.Now().Sub(t)\<close>, and \<open>Sub\<close> saturates at the least and the greatest
  \<open>Duration\<close>. Every reading of the clock is an argument of the operation that reads it.
\<close>

type_synonym Time = int
type_synonym Duration = int

definition minDuration :: Duration where
  "minDuration = - (2 ^ 63)"

definition maxDuration :: Duration where
  "maxDuration = 2 ^ 63 - 1"

definition Sub :: "Time \<Rightarrow> Time \<Rightarrow> Duration" where
  "Sub t u = (if t - u > maxDuration then maxDuration
              else if t - u < minDuration then minDuration
              else t - u)"

definition Since :: "Time \<Rightarrow> Time \<Rightarrow> Duration" where
  "Since now t = Sub now t"

text \<open>The zero \<open>time.Time\<close> (January 1, year 1, 00:00 UTC), which a map of times
  returns for a key it does not hold.\<close>

definition zeroTime :: Time where
  "zeroTime = - 62135596800 * 1000000000"

definition Second :: Duration where
  "Second = 1000000000"

datatype code = InvalidArgument | NotFound

datatype error =
    Status_error code string
  | Ctx_err
  | Platform_error string
  | Nil_dereference

section \<open>float64\<close>

text \<open>
  A \<open>float64\<close> value is modelled by the real number it denotes. \<open>float64 x\<close> is the
  binary64 number nearest to \<open>x\<close>, ties to the even significand: with
  \<open>2 ^ e \<le> |x| < 2 ^ (e + 1)\<close> (and \<open>e\<close> at least \<open>-1022\<close>, below which the
  numbers are subnormal) the significand has 53 bits and the unit in the last place is
  \<open>2 ^ (e - 52)\<close>. Every operation of the program on \<open>float64\<close> (a literal, a conversion
  from \<open>int64\<close>, a product, a difference, a sum) is the exact operation followed by this
  rounding, one rounding for each operation (no fused multiply-add). Overflow to an
  infinity starts at \<open>2 ^ 1024\<close>; the operands here are below \<open>2 ^ 64\<close> in magnitude.
\<close>

definition rne :: "real \<Rightarrow> int" where
  "rne y = (let f = \<lfloor>y\<rfloor>; r = y - of_int f
            in if r < 1 / 2 then f else if 1 / 2 < r then f + 1
               else if even f then f else f + 1)"

function bitlen :: "nat \<Rightarrow> nat" where
  "bitlen n = (if n = 0 then 0 else Suc (bitlen (n div 2)))"
  by pat_completeness auto
termination
  by (relation "measure id") auto

definition pow2 :: "int \<Rightarrow> real" where
  "pow2 e = (if 0 \<le> e then 2 ^ nat e else 1 / 2 ^ nat (- e))"

text \<open>The exponent \<open>e\<close> of a non-zero \<open>x\<close>: \<open>2 ^ e \<le> |x| < 2 ^ (e + 1)\<close>.\<close>

definition exponent :: "real \<Rightarrow> int" where
  "exponent x =
     (let a = \<bar>x\<bar>
      in if 1 \<le> a then int (bitlen (nat \<lfloor>a\<rfloor>)) - 1
         else (let k = int (bitlen (nat \<lfloor>1 / a\<rfloor>)) - 1
               in if 1 / a = 2 ^ nat k then - k else - k - 1))"

definition float64 :: "real \<Rightarrow> real" where
  "float64 x =
     (if x = 0 then 0
      else (let e = max (exponent x) (- 1022); ulp = pow2 (e - 52)
            in of_int (rne (x / ulp)) * ulp))"

section \<open>The runtime cost-time estimator\<close>

text \<open>
  \<open>RuntimeStatus\<close> with the fields of both versions of the struct in the sources: the
  request-duration map and the moving average (runtimeStatus.go), and the list of
  in-flight start times with its high-water mark (the version that \<open>Assign\<close> calls).
  The two mutexes make each operation atomic; an operation is a function on the record.
\<close>

record RuntimeStatus =
  requestDuration :: "string \<rightharpoonup> Time"
  requestCostTime :: Duration
  rctRate :: real
  requestInstance :: "Time list"
  maxRequestNum :: int

definition NewRuntimeStatus :: RuntimeStatus where
  "NewRuntimeStatus =
     \<lparr> requestDuration = Map.empty,
       requestCostTime = 0,
       rctRate = float64 (9 / 10),
       requestInstance = [],
       maxRequestNum = 0 \<rparr>"

definition AssignReturn :: "Time \<Rightarrow> string \<Rightarrow> RuntimeStatus \<Rightarrow> RuntimeStatus" where
  "AssignReturn now requestId r =
     r\<lparr>requestDuration := (requestDuration r)(requestId \<mapsto> now)\<rparr>"

text \<open>
  The conversion \<open>time.Duration(x)\<close> of a \<open>float64\<close> discards the fraction (towards
  zero). For a value that no \<open>int64\<close> holds the language leaves the result to the
  implementation; it is the least \<open>int64\<close> here, as on amd64.
\<close>

definition toDuration :: "real \<Rightarrow> Duration" where
  "toDuration x =
     (let t = (if 0 \<le> x then \<lfloor>x\<rfloor> else \<lceil>x\<rceil>)
      in if minDuration \<le> t \<and> t \<le> maxDuration then t else minDuration)"

text \<open>
  The expression \<open>time.Duration(rctRate*float64(requestCostTime) +
  (1-rctRate)*float64(duration))\<close>, operation by operation.
\<close>

definition ewma :: "real \<Rightarrow> Duration \<Rightarrow> Duration \<Rightarrow> Duration" where
  "ewma rate rct duration =
     toDuration
       (float64 (float64 (rate * float64 (of_int rct)) +
                 float64 (float64 (1 - rate) * float64 (of_int duration))))"

definition lookupTime :: "(string \<rightharpoonup> Time) \<Rightarrow> string \<Rightarrow> Time" where
  "lookupTime m k = (case m k of None \<Rightarrow> zeroTime | Some t \<Rightarrow> t)"

definition IdleStart :: "Time \<Rightarrow> string \<Rightarrow> RuntimeStatus \<Rightarrow> RuntimeStatus" where
  "IdleStart now requestId r =
     (let duration = Since now (lookupTime (requestDuration r) requestId)
      in if requestCostTime r = 0
         then r\<lparr>requestCostTime := duration\<rparr>
         else r\<lparr>requestCostTime := ewma (rctRate r) (requestCostTime r) duration\<rparr>)"

definition GetRequestCostTime :: "RuntimeStatus \<Rightarrow> Duration" where
  "GetRequestCostTime r = requestCostTime r"

text \<open>
  The loop of \<open>AssignStart\<close> over the \<open>container/list\<close>:
  \<^verbatim>\<open>for element := l.Front(); element.Value != timeStamp; element = element.Next()\<close>.
  The argument list is what lies from \<open>element\<close> to the back; the result is what is left
  of it, with the error the loop ended in, if any. \<open>clk k\<close> is the clock read by
  \<open>time.Since\<close> in iteration \<open>k\<close>.

  \<open>List.Remove\<close> clears the \<open>next\<close>, \<open>prev\<close> and \<open>list\<close> fields of the element it
  unlinks, so \<open>element.Next()\<close> of a removed element is \<open>nil\<close>, and the loop condition
  then reads \<open>Value\<close> through a nil pointer. The same happens past the back of the list.
\<close>

fun scanRequestInstance ::
  "(nat \<Rightarrow> Time) \<Rightarrow> nat \<Rightarrow> Duration \<Rightarrow> Time \<Rightarrow> Time list \<Rightarrow> error option \<times> Time list" where
  "scanRequestInstance clk k rct timeStamp [] = (Some Nil_dereference, [])"
| "scanRequestInstance clk k rct timeStamp (x # xs) =
     (if x = timeStamp then (None, x # xs)
      else if Since (clk k) x > rct then (Some Nil_dereference, xs)
      else (case scanRequestInstance clk (Suc k) rct timeStamp xs of
              (e, ys) \<Rightarrow> (e, x # ys)))"

definition AssignStart ::
  "(nat \<Rightarrow> Time) \<Rightarrow> Time \<Rightarrow> RuntimeStatus \<Rightarrow> error option \<times> RuntimeStatus" where
  "AssignStart clk timeStamp r =
     (let rct = GetRequestCostTime r;
          pushed = requestInstance r @ [timeStamp]
      in case scanRequestInstance clk 0 rct timeStamp pushed of
           (Some e, l) \<Rightarrow> (Some e, r\<lparr>requestInstance := l\<rparr>)
         | (None, l) \<Rightarrow>
             (let requestNum = int (length l)
              in (None, r\<lparr>requestInstance := l,
                            maxRequestNum := (if requestNum > maxRequestNum r
                                              then requestNum else maxRequestNum r)\<rparr>)))"

subsection \<open>Sequences of measurements\<close>

text \<open>
  A completed request is measured by \<open>AssignReturn\<close> at one clock and \<open>IdleStart\<close> at a
  later one; \<open>completed\<close> runs a list of such measurements \<open>(id, returned, idle)\<close> in
  order, and \<open>durations\<close> are the durations that the \<open>IdleStart\<close>s compute.
\<close>

fun completed :: "(string \<times> Time \<times> Time) list \<Rightarrow> RuntimeStatus \<Rightarrow> RuntimeStatus" where
  "completed [] r = r"
| "completed ((requestId, returned, idle) # ms) r =
     completed ms (IdleStart idle requestId (AssignReturn returned requestId r))"





section \<open>The scaler\<close>

subsection \<open>Messages and records\<close>

record Meta =
  Key :: string
  Runtime :: string
  TimeoutInSecs :: nat
  MemoryInMb :: nat

record SlotResourceConfig =
  MemoryInMegabytes :: nat

record Slot =
  Slot_Id :: string
  Slot_ResourceConfig :: SlotResourceConfig

record Instance =
  Instance_Id :: string
  Slot :: Slot
  Meta :: Meta
  InitDurationInMs :: int
  Busy :: bool
  LastIdleTime :: Time

record Assignment =
  RequestId :: string
  MetaKey :: string
  InstanceId :: string

record AssignRequest =
  Assign_RequestId :: string
  MetaData :: "Meta option"

datatype Status = Status_Ok

record AssignReply =
  Assign_Status :: Status
  Assign_Assigment :: "Assignment option"
  Assign_ErrorMessage :: "string option"

record Result =
  NeedDestroy :: "bool option"

record IdleRequest =
  Assigment :: "Assignment option"
  Result :: "Result option"

record IdleReply =
  Idle_Status :: Status
  Idle_ErrorMessage :: "string option"

record Config =
  GcInterval :: Duration
  IdleDurationBeforeGC :: Duration

text \<open>The platform client: what \<open>CreateSlot\<close> and \<open>Init\<close> answer. The client is not
  part of the scaler; its two answers are parameters of the model.\<close>

record Client =
  CreateSlot :: "string \<Rightarrow> SlotResourceConfig \<Rightarrow> error + Slot"
  Init :: "string \<Rightarrow> string \<Rightarrow> Slot \<Rightarrow> Meta \<Rightarrow> error + Instance"

subsection \<open>Pointers, channels, goroutines and calls to the platform\<close>

text \<open>
  The registry and the idle pool hold pointers to the same \<open>Instance\<close> objects, and
  \<open>Busy\<close> and \<open>LastIdleTime\<close> are written through them: the objects live in a heap.
  A waiter is a channel of capacity one: its buffer is empty or holds one pointer.
\<close>

type_synonym ptr = nat
type_synonym chan = nat

datatype "context" = Request_ctx | Background_WithTimeout Duration

text \<open>The reason given to \<open>DestroySLot\<close>: a literal, or the text that the GC loop
  formats from the observed and the configured idle duration.\<close>

datatype reason = Reason string | Reason_idle Duration Duration

datatype platform_call =
    Call_CreateSlot string SlotResourceConfig
  | Call_Init string string Slot Meta
  | Call_DestroySLot "context" string string reason

text \<open>What a \<open>go\<close> statement starts. The goroutine of the GC loop keeps the pointer of
  the evicted instance and the idle duration it observed.\<close>

datatype goroutine =
    Go_AssignStart Time
  | Go_AssignReturn string
  | Go_IdleStart "Assignment option"
  | Go_notifyRequest ptr
  | Go_createInstance "Meta option" string
  | Go_gcDestroy Duration ptr
  | Go_CompareAndSwap_creatingDuration Duration

record Simple =
  config :: Config
  metaData :: Meta
  platformClient :: Client
  instances :: "string \<rightharpoonup> ptr"
  idleInstance :: "ptr list"
  longPollingList :: "chan list"
  creatingNum :: int
  runtimeStatus :: RuntimeStatus
  creatingDuration :: int
  heap :: "ptr \<Rightarrow> Instance"
  nextPtr :: ptr
  chanbuf :: "chan \<Rightarrow> ptr option"
  nextChan :: chan
  goroutines :: "goroutine list"
  platform_calls :: "platform_call list"

definition go :: "goroutine \<Rightarrow> Simple \<Rightarrow> Simple" where
  "go g s = s\<lparr>goroutines := goroutines s @ [g]\<rparr>"

definition call :: "platform_call \<Rightarrow> Simple \<Rightarrow> Simple" where
  "call c s = s\<lparr>platform_calls := platform_calls s @ [c]\<rparr>"

definition setBusy :: "ptr \<Rightarrow> bool \<Rightarrow> Simple \<Rightarrow> Simple" where
  "setBusy p b s = s\<lparr>heap := (heap s)(p := (heap s p)\<lparr>Busy := b\<rparr>)\<rparr>"

definition setLastIdleTime :: "ptr \<Rightarrow> Time \<Rightarrow> Simple \<Rightarrow> Simple" where
  "setLastIdleTime p t s = s\<lparr>heap := (heap s)(p := (heap s p)\<lparr>LastIdleTime := t\<rparr>)\<rparr>"

text \<open>\<open>New\<close>: empty registry, pool and queue; the GC loop is started beside it.\<close>

definition New :: "Meta \<Rightarrow> Config \<Rightarrow> Client \<Rightarrow> (ptr \<Rightarrow> Instance) \<Rightarrow> Simple" where
  "New m c client h =
     \<lparr> config = c, metaData = m, platformClient = client,
       instances = Map.empty, idleInstance = [], longPollingList = [],
       creatingNum = 0, runtimeStatus = NewRuntimeStatus, creatingDuration = 0,
       heap = h, nextPtr = 0, chanbuf = (\<lambda>_. None), nextChan = 0,
       goroutines = [], platform_calls = [] \<rparr>"

subsection \<open>notifyRequest\<close>

text \<open>
  With a waiter at the front of the queue: the waiter is unlinked and the pointer is sent
  on its channel. A send on a channel whose buffer is full does not complete: the result
  is \<open>None\<close>. Without a waiter: \<open>Busy\<close> and \<open>LastIdleTime\<close> are written, then the
  pointer is pushed to the front of the idle pool.
\<close>

definition notifyRequest :: "Time \<Rightarrow> ptr \<Rightarrow> Simple \<Rightarrow> Simple option" where
  "notifyRequest now instance s =
     (case longPollingList s of
        longPollingChan # rest \<Rightarrow>
          (case chanbuf s longPollingChan of
             None \<Rightarrow> Some (s\<lparr>longPollingList := rest,
                              chanbuf := (chanbuf s)(longPollingChan \<mapsto> instance)\<rparr>)
           | Some _ \<Rightarrow> None)
      | [] \<Rightarrow>
          (let s1 = setLastIdleTime instance now (setBusy instance False s)
           in Some (s1\<lparr>idleInstance := instance # idleInstance s1\<rparr>)))"

subsection \<open>Assign\<close>

definition assignReply :: "AssignRequest \<Rightarrow> Instance \<Rightarrow> AssignReply" where
  "assignReply request instance =
     \<lparr> Assign_Status = Status_Ok,
       Assign_Assigment = Some \<lparr> RequestId = Assign_RequestId request,
                                 MetaKey = Key (Meta instance),
                                 InstanceId = Instance_Id instance \<rparr>,
       Assign_ErrorMessage = None \<rparr>"

text \<open>\<open>Assign\<close> up to its \<open>select\<close>: it has returned, or it waits on its channel.\<close>

datatype assigned = Returned "error + AssignReply" | Waiting chan

definition Assign :: "Time \<Rightarrow> AssignRequest \<Rightarrow> Simple \<Rightarrow> assigned \<times> Simple" where
  "Assign now request s =
     (let s1 = go (Go_AssignStart now) s
      in case idleInstance s1 of
           instance # rest \<Rightarrow>
             (let s2 = setBusy instance True s1;
                  s3 = s2\<lparr>idleInstance := rest\<rparr>
              in (Returned (Inr (assignReply request (heap s3 instance))),
                  go (Go_AssignReturn (Assign_RequestId request)) s3))
         | [] \<Rightarrow>
             (let longPollingChan = nextChan s1;
                  s2 = s1\<lparr>chanbuf := (chanbuf s1)(longPollingChan := None),
                           nextChan := Suc longPollingChan\<rparr>;
                  s3 = s2\<lparr>longPollingList := longPollingList s2 @ [longPollingChan]\<rparr>;
                  s4 = (if int (length (longPollingList s3)) > creatingNum s3
                        then go (Go_createInstance (MetaData request) (Assign_RequestId request)) s3
                        else s3)
              in (Waiting longPollingChan, s4)))"



subsection \<open>Idle and deleteSlot\<close>

text \<open>\<open>deleteSlot\<close> calls \<open>DestroySLot\<close> of the platform; an error it answers is only
  logged.\<close>

definition deleteSlot ::
  "context \<Rightarrow> string \<Rightarrow> string \<Rightarrow> string \<Rightarrow> string \<Rightarrow> reason \<Rightarrow> Simple \<Rightarrow> Simple" where
  "deleteSlot ctx requestId slotId instanceId metaKey why s =
     call (Call_DestroySLot ctx requestId slotId why) s"

definition okReply :: IdleReply where
  "okReply = \<lparr> Idle_Status = Status_Ok, Idle_ErrorMessage = None \<rparr>"

definition needDestroy_of :: "IdleRequest \<Rightarrow> bool" where
  "needDestroy_of request =
     (case Result request of
        None \<Rightarrow> False
      | Some r \<Rightarrow> (case NeedDestroy r of None \<Rightarrow> False | Some b \<Rightarrow> b))"

definition notFound :: "Assignment \<Rightarrow> error" where
  "notFound a =
     Status_error NotFound
       (''request id '' @ RequestId a @ '', instance '' @ InstanceId a @ '' not found'')"

text \<open>The part of \<open>Idle\<close> under the registry lock: what it returns, the slot id it has
  read by then, and the state.\<close>

definition Idle_locked ::
  "Assignment \<Rightarrow> bool \<Rightarrow> Simple \<Rightarrow> (error + IdleReply) \<times> string \<times> Simple" where
  "Idle_locked a needDestroy s =
     (case instances s (InstanceId a) of
        Some instance \<Rightarrow>
          (let slotId = Slot_Id (Slot (heap s instance))
           in if needDestroy then (Inr okReply, slotId, s)
              else if \<not> Busy (heap s instance) then (Inr okReply, slotId, s)
              else (Inr okReply, slotId, go (Go_notifyRequest instance) s))
      | None \<Rightarrow> (Inl (notFound a), [], s))"

text \<open>\<open>Idle\<close>: the goroutine of the estimator is started first (it reads
  \<open>request.Assigment.RequestId\<close> when it runs); the deferred \<open>deleteSlot\<close> runs after
  the lock is released, on every way out that follows its \<open>defer\<close>.\<close>

definition Idle :: "context \<Rightarrow> IdleRequest \<Rightarrow> Simple \<Rightarrow> (error + IdleReply) \<times> Simple" where
  "Idle ctx request s =
     (let s1 = go (Go_IdleStart (Assigment request)) s
      in case Assigment request of
           None \<Rightarrow> (Inl (Status_error InvalidArgument ''assignment is nil''), s1)
         | Some a \<Rightarrow>
             (let needDestroy = needDestroy_of request
              in case Idle_locked a needDestroy s1 of
                   (res, slotId, s2) \<Rightarrow>
                     (res, if needDestroy
                           then deleteSlot ctx (RequestId a) slotId (InstanceId a) (MetaKey a)
                                  (Reason ''bad instance'') s2
                           else s2)))"

text \<open>The goroutine that \<open>Idle\<close> starts for the estimator: with a nil \<open>Assigment\<close> it
  dereferences nil.\<close>

definition run_IdleStart ::
  "Time \<Rightarrow> Assignment option \<Rightarrow> RuntimeStatus \<Rightarrow> error + RuntimeStatus" where
  "run_IdleStart now a r =
     (case a of None \<Rightarrow> Inl Nil_dereference
              | Some x \<Rightarrow> Inr (IdleStart now (RequestId x) r))"

subsection \<open>The GC loop\<close>




subsection \<open>createInstance\<close>

text \<open>
  \<open>uuid\<close> is the id drawn for the instance, \<open>elapsed\<close> the time since the start that the
  last \<open>go\<close> statement measures. \<open>creatingNum\<close> is incremented at the start and the
  deferred decrement runs on every way out, also when a nil \<open>requestMeta\<close> is
  dereferenced. The instance that \<open>Init\<close> answers is a new object of the heap.
\<close>

definition metaForInit :: "Meta \<Rightarrow> Meta" where
  "metaForInit requestMeta =
     \<lparr> Key = Key requestMeta, Runtime = Runtime requestMeta,
       TimeoutInSecs = TimeoutInSecs requestMeta, MemoryInMb = 0 \<rparr>"




section \<open>Reachable states\<close>






section \<open>Example values\<close>

definition example_meta :: Meta where
  "example_meta = \<lparr> Key = ''app'', Runtime = ''go'', TimeoutInSecs = 30, MemoryInMb = 128 \<rparr>"

definition example_config :: Config where
  "example_config = \<lparr> GcInterval = 10 * Second, IdleDurationBeforeGC = 300 * Second \<rparr>"

definition example_client :: Client where
  "example_client =
     \<lparr> CreateSlot = (\<lambda>requestId rc. Inr \<lparr> Slot_Id = ''slot-'' @ requestId,
                                               Slot_ResourceConfig = rc \<rparr>),
       Init = (\<lambda>requestId instanceId slot meta.
                 Inr \<lparr> Instance_Id = instanceId, Slot = slot, Meta = meta,
                       InitDurationInMs = 7, Busy = False, LastIdleTime = 0 \<rparr>) \<rparr>"

definition example_instance :: Instance where
  "example_instance =
     \<lparr> Instance_Id = ''i1'',
       Slot = \<lparr> Slot_Id = ''s1'', Slot_ResourceConfig = \<lparr> MemoryInMegabytes = 128 \<rparr> \<rparr>,
       Meta = metaForInit example_meta,
       InitDurationInMs = 7, Busy = True, LastIdleTime = 0 \<rparr>"

text \<open>A scaler whose registry holds the one instance \<open>i1\<close>, assigned (busy).\<close>

definition example_busy :: Simple where
  "example_busy =
     (New example_meta example_config example_client (\<lambda>_. example_instance))
       \<lparr> instances := [''i1'' \<mapsto> 0], nextPtr := 1 \<rparr>"

text \<open>The same scaler with \<open>i1\<close> idle in the pool since time \<open>1000\<close>.\<close>

definition example_idle :: Simple where
  "example_idle =
     example_busy
       \<lparr> heap := (\<lambda>_. example_instance\<lparr>Busy := False, LastIdleTime := 1000\<rparr>),
         idleInstance := [0] \<rparr>"

definition example_assignment :: Assignment where
  "example_assignment = \<lparr> RequestId = ''r1'', MetaKey = ''app'', InstanceId = ''i1'' \<rparr>"

definition example_request :: AssignRequest where
  "example_request = \<lparr> Assign_RequestId = ''r1'', MetaData = Some example_meta \<rparr>"

text \<open>A new scaler.\<close>

definition example_new :: Simple where
  "example_new = New example_meta example_config example_client (\<lambda>_. example_instance)"




section \<open>The waiter queue\<close>













section \<open>Assign\<close>

text \<open>
  Claim C3. An \<open>Assign\<close> that finds the idle pool empty appends its channel to the
  waiter queue and then starts \<open>createInstance\<close> exactly when the length of the queue,
  with the new channel, exceeds \<open>creatingNum\<close>: besides the estimator's goroutine it
  starts one creation or none.
\<close>

theorem Assign_miss_creation:
  assumes "idleInstance s = []"
  shows "\<exists>ch s'. Assign now request s = (Waiting ch, s') \<and>
           longPollingList s' = longPollingList s @ [ch] \<and>
           goroutines s' =
             goroutines s @ [Go_AssignStart now] @
             (if int (length (longPollingList s')) > creatingNum s
              then [Go_createInstance (MetaData request) (Assign_RequestId request)]
              else [])"
  using assms by (simp add: Assign_def go_def Let_def)

theorem Assign_miss_creation_witness:
  "(\<exists>ch s'. Assign 5 example_request example_new = (Waiting ch, s') \<and>
       longPollingList s' = [ch] \<and>
       goroutines s' = [Go_AssignStart 5, Go_createInstance (Some example_meta) ''r1'']) \<and>
   (\<exists>ch s'. Assign 5 example_request (example_new\<lparr>creatingNum := 1\<rparr>) = (Waiting ch, s') \<and>
       longPollingList s' = [ch] \<and> goroutines s' = [Go_AssignStart 5])"
  using Assign_miss_creation [of example_new 5 example_request]
    Assign_miss_creation [of "example_new\<lparr>creatingNum := 1\<rparr>" 5 example_request]
  by (auto simp: example_new_def New_def example_request_def)

section \<open>Idle\<close>

lemma Idle_frame:
  "instances (snd (Idle ctx request s)) = instances s \<and>
   idleInstance (snd (Idle ctx request s)) = idleInstance s \<and>
   heap (snd (Idle ctx request s)) = heap s \<and>
   longPollingList (snd (Idle ctx request s)) = longPollingList s"
  by (simp add: Idle_def Idle_locked_def go_def deleteSlot_def call_def Let_def
      split: option.splits)

text \<open>
  The goroutine that \<open>Idle\<close> starts for the estimator reads the request id through
  \<open>request.Assigment\<close>: started with a nil \<open>Assigment\<close>, it dereferences nil when it runs.
  The second lemma: after \<open>Idle\<close> with \<open>NeedDestroy\<close>, a second \<open>Idle\<close> for the same
  assignment still finds the instance registered and busy, and hands it to
  \<open>notifyRequest\<close>; the next \<open>Assign\<close> returns the instance whose slot was destroyed.
\<close>

lemma Idle_nil_Assigment_goroutine:
  "goroutines (snd (Idle ctx \<lparr> Assigment = None, Result = res \<rparr> s)) =
     goroutines s @ [Go_IdleStart None] \<and>
   run_IdleStart now None r = Inl Nil_dereference"
  by (simp add: Idle_def go_def run_IdleStart_def)

lemma destroyed_instance_reassigned:
  "\<exists>s1 s2 s3 s4.
     Idle Request_ctx
       \<lparr> Assigment = Some example_assignment, Result = Some \<lparr> NeedDestroy = Some True \<rparr> \<rparr>
       example_busy = (Inr okReply, s1) \<and>
     Idle Request_ctx \<lparr> Assigment = Some example_assignment, Result = None \<rparr> s1
       = (Inr okReply, s2) \<and>
     goroutines s2 = goroutines s1 @ [Go_IdleStart (Some example_assignment), Go_notifyRequest 0] \<and>
     notifyRequest 20 0 s2 = Some s3 \<and>
     idleInstance s3 = [0] \<and>
     platform_calls s3 = [Call_DestroySLot Request_ctx ''r1'' ''s1'' (Reason ''bad instance'')] \<and>
     Assign 30 (example_request\<lparr>Assign_RequestId := ''r2''\<rparr>) s3 =
       (Returned (Inr \<lparr> Assign_Status = Status_Ok,
                         Assign_Assigment = Some (example_assignment\<lparr>RequestId := ''r2''\<rparr>),
                         Assign_ErrorMessage = None \<rparr>), s4)"
  by (simp add: Idle_def Idle_locked_def go_def deleteSlot_def call_def needDestroy_of_def
      example_busy_def example_assignment_def example_instance_def New_def okReply_def
      notifyRequest_def setBusy_def setLastIdleTime_def Assign_def assignReply_def
      example_request_def metaForInit_def example_meta_def Let_def)

text \<open>
  Claim C1. \<open>Idle\<close> with \<open>NeedDestroy = true\<close> for a registered instance returns
  success; the claim has the instance removed from the registry. At the scaler that
  holds the busy instance \<open>i1\<close>, \<open>Idle\<close> returns success and calls \<open>DestroySLot\<close> for
  the slot \<open>s1\<close>, and \<open>i1\<close> is still registered afterwards (by \<open>Idle_frame\<close>, \<open>Idle\<close>
  never changes the registry), where the GC loop deletes the id of an instance it
  destroys.
\<close>

theorem Idle_NeedDestroy_keeps_registered:
  "fst (Idle Request_ctx
          \<lparr> Assigment = Some example_assignment, Result = Some \<lparr> NeedDestroy = Some True \<rparr> \<rparr>
          example_busy) = Inr okReply \<and>
   platform_calls (snd (Idle Request_ctx
          \<lparr> Assigment = Some example_assignment, Result = Some \<lparr> NeedDestroy = Some True \<rparr> \<rparr>
          example_busy))
     = [Call_DestroySLot Request_ctx ''r1'' ''s1'' (Reason ''bad instance'')] \<and>
   instances (snd (Idle Request_ctx
          \<lparr> Assigment = Some example_assignment, Result = Some \<lparr> NeedDestroy = Some True \<rparr> \<rparr>
          example_busy)) ''i1'' = Some 0"
  by (simp add: Idle_def Idle_locked_def go_def deleteSlot_def call_def needDestroy_of_def
      example_busy_def example_assignment_def example_instance_def New_def okReply_def)

text \<open>
  Claim C6. What \<open>Idle\<close> returns: the invalid-argument error when the \<open>Assigment\<close> of
  the request is nil, the not-found error when the registry does not hold the instance
  id of the \<open>Assigment\<close>, and success in every other case.
\<close>

theorem Idle_result:
  "fst (Idle ctx request s) =
     (case Assigment request of
        None \<Rightarrow> Inl (Status_error InvalidArgument ''assignment is nil'')
      | Some a \<Rightarrow>
          (case instances s (InstanceId a) of
             None \<Rightarrow> Inl (notFound a)
           | Some instance \<Rightarrow> Inr okReply))"
  by (simp add: Idle_def Idle_locked_def go_def Let_def split: option.splits)

theorem Idle_result_witness:
  "fst (Idle Request_ctx \<lparr> Assigment = None, Result = None \<rparr> example_busy)
     = Inl (Status_error InvalidArgument ''assignment is nil'') \<and>
   fst (Idle Request_ctx \<lparr> Assigment = Some (example_assignment\<lparr>InstanceId := ''i2''\<rparr>),
                           Result = None \<rparr> example_busy)
     = Inl (Status_error NotFound ''request id r1, instance i2 not found'') \<and>
   fst (Idle Request_ctx \<lparr> Assigment = Some example_assignment, Result = None \<rparr> example_busy)
     = Inr okReply"
  using Idle_result [of Request_ctx "\<lparr> Assigment = None, Result = None \<rparr>" example_busy]
    Idle_result [of Request_ctx
      "\<lparr> Assigment = Some (example_assignment\<lparr>InstanceId := ''i2''\<rparr>), Result = None \<rparr>"
      example_busy]
    Idle_result [of Request_ctx "\<lparr> Assigment = Some example_assignment, Result = None \<rparr>"
      example_busy]
  by (simp add: example_busy_def example_assignment_def New_def notFound_def)

text \<open>
  Claim C9. \<open>Idle\<close> with \<open>NeedDestroy = true\<close> for an instance id that the registry
  does not hold returns the not-found error, and the deferred \<open>deleteSlot\<close> still calls
  \<open>DestroySLot\<close>, with the empty slot id and the reason "bad instance".
\<close>

theorem Idle_NeedDestroy_unregistered:
  assumes "Assigment request = Some a"
    and "Result request = Some r" and "NeedDestroy r = Some True"
    and "instances s (InstanceId a) = None"
  shows "Idle ctx request s =
           (Inl (notFound a),
            call (Call_DestroySLot ctx (RequestId a) [] (Reason ''bad instance''))
              (go (Go_IdleStart (Some a)) s))"
  using assms
  by (simp add: Idle_def Idle_locked_def go_def deleteSlot_def needDestroy_of_def Let_def)

theorem Idle_NeedDestroy_unregistered_witness:
  "Idle Request_ctx
     \<lparr> Assigment = Some (example_assignment\<lparr>InstanceId := ''i2''\<rparr>),
       Result = Some \<lparr> NeedDestroy = Some True \<rparr> \<rparr>
     example_busy
   = (Inl (Status_error NotFound ''request id r1, instance i2 not found''),
      example_busy
        \<lparr> goroutines := [Go_IdleStart (Some (example_assignment\<lparr>InstanceId := ''i2''\<rparr>))],
          platform_calls := [Call_DestroySLot Request_ctx ''r1'' [] (Reason ''bad instance'')] \<rparr>)"
  using Idle_NeedDestroy_unregistered
    [of "\<lparr> Assigment = Some (example_assignment\<lparr>InstanceId := ''i2''\<rparr>),
           Result = Some \<lparr> NeedDestroy = Some True \<rparr> \<rparr>"
        "example_assignment\<lparr>InstanceId := ''i2''\<rparr>" "\<lparr> NeedDestroy = Some True \<rparr>"
        example_busy Request_ctx]
  by (simp add: example_busy_def example_assignment_def New_def notFound_def go_def call_def)

section \<open>The GC loop\<close>











section \<open>Assign, Idle, Assign\<close>

text \<open>
  Claim C5. From a scaler with one idle, registered instance and no waiter: \<open>Assign\<close>
  returns the id of that instance and empties the pool; \<open>Idle\<close> for that assignment
  succeeds and starts \<open>notifyRequest\<close>, which puts the instance back into the pool; and
  the next \<open>Assign\<close> returns the same instance id.
\<close>

theorem Assign_Idle_roundtrip:
  assumes pool: "idleInstance s = [p]"
    and waiters: "longPollingList s = []"
    and registered: "instances s (Instance_Id (heap s p)) = Some p"
    and keep: "needDestroy_of \<lparr> Assigment = Some a, Result = res \<rparr> = False"
    and a: "a = \<lparr> RequestId = Assign_RequestId request1,
                  MetaKey = Key (Meta (heap s p)), InstanceId = Instance_Id (heap s p) \<rparr>"
  shows "\<exists>s1 s2 s3 s4.
           Assign t1 request1 s =
             (Returned (Inr \<lparr> Assign_Status = Status_Ok, Assign_Assigment = Some a,
                               Assign_ErrorMessage = None \<rparr>), s1) \<and>
           idleInstance s1 = [] \<and>
           Idle ctx \<lparr> Assigment = Some a, Result = res \<rparr> s1 = (Inr okReply, s2) \<and>
           goroutines s2 = goroutines s1 @ [Go_IdleStart (Some a), Go_notifyRequest p] \<and>
           notifyRequest t2 p s2 = Some s3 \<and>
           idleInstance s3 = [p] \<and>
           Assign t3 request2 s3 =
             (Returned (Inr \<lparr> Assign_Status = Status_Ok,
                               Assign_Assigment = Some (a\<lparr>RequestId := Assign_RequestId request2\<rparr>),
                               Assign_ErrorMessage = None \<rparr>), s4)"
  using assms
  by (simp add: Assign_def Idle_def Idle_locked_def notifyRequest_def go_def setBusy_def
      setLastIdleTime_def assignReply_def Let_def)

theorem Assign_Idle_roundtrip_witness:
  "\<exists>s1 s2 s3 s4.
     Assign 10 example_request example_idle =
       (Returned (Inr \<lparr> Assign_Status = Status_Ok, Assign_Assigment = Some example_assignment,
                         Assign_ErrorMessage = None \<rparr>), s1) \<and>
     idleInstance s1 = [] \<and>
     Idle Request_ctx \<lparr> Assigment = Some example_assignment, Result = None \<rparr> s1
       = (Inr okReply, s2) \<and>
     goroutines s2 =
       goroutines s1 @ [Go_IdleStart (Some example_assignment), Go_notifyRequest 0] \<and>
     notifyRequest 20 0 s2 = Some s3 \<and>
     idleInstance s3 = [0] \<and>
     Assign 30 (example_request\<lparr>Assign_RequestId := ''r2''\<rparr>) s3 =
       (Returned (Inr \<lparr> Assign_Status = Status_Ok,
                         Assign_Assigment = Some (example_assignment
                           \<lparr>RequestId := Assign_RequestId
                              (example_request\<lparr>Assign_RequestId := ''r2''\<rparr>)\<rparr>),
                         Assign_ErrorMessage = None \<rparr>), s4)"
proof (rule Assign_Idle_roundtrip)
  show "idleInstance example_idle = [0]"
    by (simp add: example_idle_def)
  show "longPollingList example_idle = []"
    by (simp add: example_idle_def example_busy_def New_def)
  show "instances example_idle (Instance_Id (heap example_idle 0)) = Some 0"
    by (simp add: example_idle_def example_busy_def New_def example_instance_def)
  show "needDestroy_of \<lparr> Assigment = Some example_assignment, Result = None \<rparr> = False"
    by (simp add: needDestroy_of_def)
  show "example_assignment =
          \<lparr> RequestId = Assign_RequestId example_request,
            MetaKey = Key (Meta (heap example_idle 0)),
            InstanceId = Instance_Id (heap example_idle 0) \<rparr>"
    by (simp add: example_idle_def example_assignment_def example_request_def
        example_instance_def metaForInit_def example_meta_def)
qed


section \<open>createInstance\<close>














section \<open>The estimator\<close>

subsection \<open>IdleStart\<close>

lemma completed_rctRate: "rctRate (completed ms r) = rctRate r"
  by (induction ms r rule: completed.induct) (simp_all add: IdleStart_def AssignReturn_def Let_def)









text \<open>
  Two \<open>IdleStart\<close>s for request ids that the map does not hold: each duration is the
  greatest \<open>Duration\<close>, the \<open>float64\<close> sum is \<open>2 ^ 63\<close>, and the conversion is out of
  the range of \<open>int64\<close>.
\<close>

lemma IdleStart_unknown_twice:
  "requestCostTime (IdleStart 1700000000000000000 ''x'' NewRuntimeStatus) = maxDuration \<and>
   requestCostTime
     (IdleStart 1700000000000000001 ''y'' (IdleStart 1700000000000000000 ''x'' NewRuntimeStatus))
     = minDuration"
  by (simp add: IdleStart_def lookupTime_def NewRuntimeStatus_def Since_def Sub_def zeroTime_def
      ewma_def toDuration_def float64_def exponent_def pow2_def rne_def
      minDuration_def maxDuration_def Let_def)




subsection \<open>AssignStart\<close>

lemma scanRequestInstance_returns:
  "fst (scanRequestInstance clk k rct timeStamp xs) = None \<Longrightarrow>
   snd (scanRequestInstance clk k rct timeStamp xs) = xs"
  by (induction clk k rct timeStamp xs rule: scanRequestInstance.induct)
     (auto split: if_splits prod.splits)

lemma AssignStart_returns:
  assumes "fst (AssignStart clk timeStamp r) = None"
  shows "requestInstance (snd (AssignStart clk timeStamp r)) = requestInstance r @ [timeStamp]"
proof -
  obtain e l where sc:
    "scanRequestInstance clk 0 (GetRequestCostTime r) timeStamp (requestInstance r @ [timeStamp])
       = (e, l)"
    by (cases "scanRequestInstance clk 0 (GetRequestCostTime r) timeStamp
          (requestInstance r @ [timeStamp])") auto
  with assms have "e = None"
    by (cases e) (simp_all add: AssignStart_def Let_def)
  with sc scanRequestInstance_returns [of clk 0 "GetRequestCostTime r" timeStamp
      "requestInstance r @ [timeStamp]"]
  have "l = requestInstance r @ [timeStamp]" by simp
  with sc \<open>e = None\<close> show ?thesis by (simp add: AssignStart_def Let_def)
qed

lemma AssignStart_expired_front:
  assumes "requestInstance r = x # xs" and "x \<noteq> timeStamp"
    and "requestCostTime r < Since (clk 0) x"
  shows "AssignStart clk timeStamp r =
           (Some Nil_dereference, r\<lparr>requestInstance := xs @ [timeStamp]\<rparr>)"
  using assms by (simp add: AssignStart_def GetRequestCostTime_def)

text \<open>
  Claim C8. \<open>AssignStart\<close> is claimed to unlink every expired entry before the entry
  equal to its time stamp and then to raise \<open>maxRequestNum\<close>. Two calls at the clock
  1000 leave the entries 1000 and 1000. The call with time stamp 2000 at the clock
  2000, with \<open>requestCostTime\<close> zero, unlinks the first of them and then dereferences
  nil in the loop condition: the second expired entry stays, and the update of
  \<open>maxRequestNum\<close> is not reached. By \<open>AssignStart_returns\<close>, a call that returns has unlinked nothing.
\<close>

theorem AssignStart_expired_panics:
  "AssignStart (\<lambda>_. 1000) 1000 NewRuntimeStatus =
     (None, NewRuntimeStatus\<lparr>requestInstance := [1000], maxRequestNum := 1\<rparr>) \<and>
   AssignStart (\<lambda>_. 1000) 1000 (NewRuntimeStatus\<lparr>requestInstance := [1000], maxRequestNum := 1\<rparr>) =
     (None, NewRuntimeStatus\<lparr>requestInstance := [1000, 1000], maxRequestNum := 2\<rparr>) \<and>
   AssignStart (\<lambda>_. 2000) 2000
       (NewRuntimeStatus\<lparr>requestInstance := [1000, 1000], maxRequestNum := 2\<rparr>) =
     (Some Nil_dereference,
      NewRuntimeStatus\<lparr>requestInstance := [1000, 2000], maxRequestNum := 2\<rparr>)"
  by (simp add: AssignStart_def GetRequestCostTime_def NewRuntimeStatus_def Since_def Sub_def
      maxDuration_def minDuration_def)

end
